theory Spec2Isabelle
  imports Main "HOL-Library.Word"
begin

section \<open>soong\_zip: data model\<close>

text \<open>
  Shallow embedding of \<^verbatim>\<open>cmd/soong_zip/soong_zip.go\<close>. Byte slices are lists of
  8-bit words, Go strings used as paths are HOL strings, \<^verbatim>\<open>uint16\<close>, \<^verbatim>\<open>uint32\<close>
  and \<^verbatim>\<open>uint64\<close> header fields are words of that width. File sizes and offsets
  (\<^verbatim>\<open>int64\<close>) that the code adds to are integers; a file would have to lie within
  1 MiB of \<open>2^63\<close> bytes for \<^verbatim>\<open>start + parallelBlockSize\<close> to leave the
  \<^verbatim>\<open>int64\<close> range.
\<close>

type_synonym byte = "8 word"
type_synonym bytes = "byte list"

definition parallelBlockSize :: int where
  "parallelBlockSize = 1 * 1024 * 1024"

definition minParallelFileSize :: int where
  "minParallelFileSize = parallelBlockSize * 6"

definition windowSize :: int where
  "windowSize = 32 * 1024"

definition manifestDest :: string where
  "manifestDest = ''META-INF/MANIFEST.MF''"

text \<open>The two compression methods of \<^verbatim>\<open>third_party/zip\<close> (values of the ZIP format).\<close>

definition zipStore :: "16 word" where
  "zipStore = 0"

definition zipDeflate :: "16 word" where
  "zipDeflate = 8"

text \<open>The bits of \<^verbatim>\<open>os.FileMode\<close> the program sets.\<close>

definition ModeDir :: "32 word" where
  "ModeDir = 0x80000000"

definition ModeSymlink :: "32 word" where
  "ModeSymlink = 0x08000000"

datatype error =
    OsError string
  | Errorf string
  | FlateError string
  | NilDeref

text \<open>
  \<^verbatim>\<open>zip.FileHeader\<close>: the fields the program reads or writes. \<open>Mode\<close> holds the
  argument of the last \<^verbatim>\<open>SetMode\<close> (0 when it was never called), \<open>ModTime\<close> the
  argument of the last \<^verbatim>\<open>SetModTime\<close> as seconds since the Unix epoch.
\<close>

record FileHeader =
  Name :: string
  Method :: "16 word"
  UncompressedSize64 :: "64 word"
  UncompressedSize :: "32 word"
  CompressedSize64 :: "64 word"
  CRC32 :: "32 word"
  Extra :: bytes
  Mode :: "32 word"
  ModTime :: "int option"

definition emptyHeader :: FileHeader where
  "emptyHeader = \<lparr> Name = [], Method = 0, UncompressedSize64 = 0, UncompressedSize = 0,
     CompressedSize64 = 0, CRC32 = 0, Extra = [], Mode = 0, ModTime = None \<rparr>"

text \<open>
  \<^verbatim>\<open>zipEntry\<close>. \<open>futureReaders\<close> is \<open>None\<close> for the nil channel. The type
  parameter is what stands for the channel: where a function is modelled by its result,
  the list of the buffers the channel carries when it is closed, in the order of the
  sends; in the model of the pipeline, the identity of the channel.
\<close>

record 'c zipEntry =
  fh :: FileHeader
  futureReaders :: "'c option"
  allocatedSize :: "64 word"

subsection \<open>Input files\<close>

text \<open>
  A \<^verbatim>\<open>readerSeekerCloser\<close>: the bytes of the file, the read offset, and the error
  (if any) that its reads and its seeks return.
\<close>

record source =
  content :: bytes
  pos :: nat
  readErr :: "error option"
  seekErr :: "error option"

text \<open>\<^verbatim>\<open>io.Copy(w, r)\<close> and \<^verbatim>\<open>ioutil.ReadAll(r)\<close>: everything from the offset to the end.\<close>

definition readAll :: "source \<Rightarrow> (error + bytes) \<times> source" where
  "readAll r = (case readErr r of
       Some e \<Rightarrow> (Inl e, r)
     | None \<Rightarrow> (Inr (drop (pos r) (content r)), r\<lparr>pos := max (pos r) (length (content r))\<rparr>))"

text \<open>\<^verbatim>\<open>r.Seek(0, 0)\<close>.\<close>

definition seek0 :: "source \<Rightarrow> error option \<times> source" where
  "seek0 r = (case seekErr r of
       Some e \<Rightarrow> (Some e, r)
     | None \<Rightarrow> (None, r\<lparr>pos := 0\<rparr>))"

text \<open>\<^verbatim>\<open>io.NewSectionReader(r, off, n)\<close>: reads by \<^verbatim>\<open>ReadAt\<close>, whatever the offset of \<open>r\<close>.\<close>

definition sectionReader :: "source \<Rightarrow> int \<Rightarrow> int \<Rightarrow> source" where
  "sectionReader r off n = r\<lparr>content := take (nat n) (drop (nat off) (content r)), pos := 0\<rparr>"

subsection \<open>The libraries\<close>

text \<open>
  \<^verbatim>\<open>hash/crc32\<close> and \<^verbatim>\<open>compress/flate\<close> are parameters. A \<^verbatim>\<open>flate.Writer\<close> is
  its level, its preset dictionary and the calls made on it since it was created or
  reset; \<open>flate lib level dict ops\<close> is what such a writer has put into its buffer.
\<close>

datatype flate_op = FWrite bytes | FFlush | FClose

record flateWriter =
  fwLevel :: int
  fwDict :: bytes
  fwOps :: "flate_op list"

record lib =
  crc32 :: "bytes \<Rightarrow> 32 word"
  flate :: "int \<Rightarrow> bytes \<Rightarrow> flate_op list \<Rightarrow> bytes"

definition bufferOf :: "lib \<Rightarrow> flateWriter \<Rightarrow> bytes" where
  "bufferOf l w = flate l (fwLevel w) (fwDict w) (fwOps w)"

text \<open>
  \<^verbatim>\<open>flate.NewWriter\<close> and \<^verbatim>\<open>flate.NewWriterDict\<close> fail on a level outside
  \<open>[-2, 9]\<close> and return a nil writer with the error.
\<close>

definition NewWriterDict :: "int \<Rightarrow> bytes \<Rightarrow> error + flateWriter" where
  "NewWriterDict level dict =
     (if level < -2 \<or> 9 < level then Inl (FlateError ''flate: invalid compression level'')
      else Inr \<lparr> fwLevel = level, fwDict = dict, fwOps = [] \<rparr>)"

definition NewWriter :: "int \<Rightarrow> error + flateWriter" where
  "NewWriter level = NewWriterDict level []"

text \<open>\<^verbatim>\<open>fw.Reset(buf)\<close>: the state of a new writer of the same level, without dictionary.\<close>

definition Reset :: "flateWriter \<Rightarrow> flateWriter" where
  "Reset w = w\<lparr>fwDict := [], fwOps := []\<rparr>"

text \<open>
  \<^verbatim>\<open>sync.Pool\<close> with no \<^verbatim>\<open>New\<close>: what was put and not yet taken. An element is a
  \<^verbatim>\<open>*flate.Writer\<close>, \<open>None\<close> a nil pointer of that type (which \<^verbatim>\<open>Put\<close> stores like
  any other). \<^verbatim>\<open>Get\<close> may return any element or nothing: \<open>pick\<close> says which.
\<close>

type_synonym pool = "flateWriter option list"

definition poolGet :: "pool \<Rightarrow> nat option \<Rightarrow> flateWriter option option \<times> pool" where
  "poolGet p pick = (case pick of
       None \<Rightarrow> (None, p)
     | Some k \<Rightarrow> if k < length p then (Some (p ! k), take k p @ drop (Suc k) p) else (None, p))"

definition poolPut :: "pool \<Rightarrow> flateWriter option \<Rightarrow> pool" where
  "poolPut p w = p @ [w]"

section \<open>compressBlock\<close>

text \<open>
  The result of \<^verbatim>\<open>compressBlock\<close>: the returned pair as \<open>cbOut\<close> (the bytes of the
  buffer), the writer \<open>fw\<close> as the call leaves it (\<open>None\<close> is nil), the pool and the
  reader after the call.
\<close>

record cbResult =
  cbOut :: "error + bytes"
  cbWriter :: "flateWriter option"
  cbPool :: pool
  cbSrc :: source

text \<open>The part after the writer is obtained: copy, then close or flush.\<close>

definition copyAndFinish :: "lib \<Rightarrow> flateWriter \<Rightarrow> source \<Rightarrow> bool
    \<Rightarrow> (error + bytes) \<times> flateWriter \<times> source" where
  "copyAndFinish l fw r isLast = (case readAll r of
       (Inl e, r') \<Rightarrow> (Inl e, fw, r')
     | (Inr input, r') \<Rightarrow>
         (let fw1 = fw\<lparr>fwOps := fwOps fw @ [FWrite input]\<rparr>;
              fw2 = fw1\<lparr>fwOps := fwOps fw1 @ [if isLast then FClose else FFlush]\<rparr>
          in (Inr (bufferOf l fw2), fw2, r')))"

definition compressBlock :: "lib \<Rightarrow> int \<Rightarrow> pool \<Rightarrow> nat option \<Rightarrow> source \<Rightarrow> bytes \<Rightarrow> bool
    \<Rightarrow> cbResult" where
  "compressBlock l compLevel p pick r dict isLast =
     (if length dict > 0 then
        (case NewWriterDict compLevel dict of
           Inl e \<Rightarrow> \<lparr> cbOut = Inl e, cbWriter = None, cbPool = p, cbSrc = r \<rparr>
         | Inr fw \<Rightarrow>
             (case copyAndFinish l fw r isLast of (out, fw', r') \<Rightarrow>
                \<lparr> cbOut = out, cbWriter = Some fw', cbPool = p, cbSrc = r' \<rparr>))
      else
        (case poolGet p pick of
           (Some None, p') \<Rightarrow>
             \<lparr> cbOut = Inl NilDeref, cbWriter = None, cbPool = p', cbSrc = r \<rparr>
         | (Some (Some pooled), p') \<Rightarrow>
             (case copyAndFinish l (Reset pooled) r isLast of (out, fw', r') \<Rightarrow>
                \<lparr> cbOut = out, cbWriter = Some fw', cbPool = poolPut p' (Some fw'), cbSrc = r' \<rparr>)
         | (None, p') \<Rightarrow>
             (case NewWriter compLevel of
                Inl e \<Rightarrow> \<lparr> cbOut = Inl e, cbWriter = None, cbPool = poolPut p' None, cbSrc = r \<rparr>
              | Inr fw \<Rightarrow>
                  (case copyAndFinish l fw r isLast of (out, fw', r') \<Rightarrow>
                     \<lparr> cbOut = out, cbWriter = Some fw', cbPool = poolPut p' (Some fw'),
                       cbSrc = r' \<rparr>))))"


section \<open>Entry compressor\<close>

text \<open>The closure \<^verbatim>\<open>readFile\<close> of \<^verbatim>\<open>compressWholeFile\<close>.\<close>

definition readFile :: "source \<Rightarrow> error + bytes" where
  "readFile reader = (case seek0 reader of
       (Some e, _) \<Rightarrow> Inl e
     | (None, r1) \<Rightarrow> fst (readAll r1))"

definition storeEntry :: "bytes list zipEntry \<Rightarrow> bytes \<Rightarrow> bytes list zipEntry" where
  "storeEntry ze buf = ze\<lparr>fh := (fh ze)\<lparr>Method := zipStore\<rparr>, futureReaders := Some [buf]\<rparr>"

text \<open>
  \<^verbatim>\<open>compressWholeFile\<close>: \<open>Inl e\<close> is the error sent to \<^verbatim>\<open>z.errors\<close>, \<open>Inr ze\<close>
  the entry sent to \<^verbatim>\<open>compressChan\<close>, whose \<open>futureReaders\<close> carries the one buffer
  sent to \<^verbatim>\<open>futureReader\<close>. \<^verbatim>\<open>compressed.Len()\<close> is a non-negative \<^verbatim>\<open>int\<close>, so
  its conversion to \<^verbatim>\<open>uint64\<close> keeps the value.
\<close>

definition compressWholeFile :: "lib \<Rightarrow> int \<Rightarrow> pool \<Rightarrow> nat option \<Rightarrow> bytes list zipEntry
    \<Rightarrow> source \<Rightarrow> (error + bytes list zipEntry) \<times> pool" where
  "compressWholeFile l compLevel p pick ze r =
     (case readAll r of
        (Inl e, _) \<Rightarrow> (Inl e, p)
      | (Inr whole, r1) \<Rightarrow>
          (let ze1 = ze\<lparr>fh := (fh ze)\<lparr>CRC32 := crc32 l whole\<rparr>\<rparr> in
           case seek0 r1 of
             (Some e, _) \<Rightarrow> (Inl e, p)
           | (None, r2) \<Rightarrow>
               if Method (fh ze1) = zipDeflate then
                 (let res = compressBlock l compLevel p pick r2 [] True in
                  case cbOut res of
                    Inl e \<Rightarrow> (Inl e, cbPool res)
                  | Inr compressed \<Rightarrow>
                      if length compressed < unat (UncompressedSize64 (fh ze1)) then
                        (Inr (ze1\<lparr>futureReaders := Some [compressed]\<rparr>), cbPool res)
                      else
                        (case readFile (cbSrc res) of
                           Inl e \<Rightarrow> (Inl e, cbPool res)
                         | Inr buf \<Rightarrow> (Inr (storeEntry ze1 buf), cbPool res)))
               else
                 (case readFile r2 of
                    Inl e \<Rightarrow> (Inl e, p)
                  | Inr buf \<Rightarrow> (Inr (storeEntry ze1 buf), p))))"

text \<open>\<^verbatim>\<open>crcFile\<close>: the entry it sends to \<^verbatim>\<open>resultChan\<close>, or the error it posts.\<close>

definition crcFile :: "lib \<Rightarrow> source \<Rightarrow> 'c zipEntry \<Rightarrow> error + 'c zipEntry" where
  "crcFile l r ze = (case readAll r of
       (Inl e, _) \<Rightarrow> Inl e
     | (Inr whole, _) \<Rightarrow> Inr (ze\<lparr>fh := (fh ze)\<lparr>CRC32 := crc32 l whole\<rparr>\<rparr>))"

text \<open>
  One iteration of the loop over the ranges of a large file: the arguments of the
  \<^verbatim>\<open>compressPartialFile\<close> goroutine it starts.
\<close>

record blockJob =
  bjStart :: int
  bjReader :: source
  bjDict :: bytes
  bjLast :: bool

text \<open>
  The loop \<^verbatim>\<open>for start := int64(0); start < fileSize; start += parallelBlockSize\<close>.
  The result is the jobs started, and the error of the dictionary read that made
  \<^verbatim>\<open>writeFileContents\<close> return early (the range of that read has its channel in
  \<^verbatim>\<open>futureReaders\<close> already, but no goroutine).
\<close>

function splitLoop :: "source \<Rightarrow> int \<Rightarrow> int \<Rightarrow> blockJob list \<times> error option" where
  "splitLoop r fileSize start =
     (if start < fileSize then
        (let sr = sectionReader r start parallelBlockSize;
             isLast = (\<not> (start + parallelBlockSize < fileSize))
         in case (if start \<ge> windowSize
                  then fst (readAll (sectionReader r (start - windowSize) windowSize))
                  else Inr [])
            of Inl e \<Rightarrow> ([], Some e)
             | Inr dict \<Rightarrow>
                 (case splitLoop r fileSize (start + parallelBlockSize) of (jobs, e) \<Rightarrow>
                    (\<lparr> bjStart = start, bjReader = sr, bjDict = dict, bjLast = isLast \<rparr> # jobs, e)))
      else ([], None))"
  by pat_completeness auto
termination
  by (relation "measure (\<lambda>(r, fileSize, start). nat (fileSize - start))")
     (auto simp: parallelBlockSize_def)

text \<open>\<^verbatim>\<open>compressPartialFile\<close>: the call of \<^verbatim>\<open>compressBlock\<close> it makes.\<close>

definition compressPartialFile :: "lib \<Rightarrow> int \<Rightarrow> pool \<Rightarrow> nat option \<Rightarrow> blockJob \<Rightarrow> cbResult" where
  "compressPartialFile l compLevel p pick job =
     compressBlock l compLevel p pick (bjReader job) (bjDict job) (bjLast job)"

text \<open>
  What the producer sends on \<^verbatim>\<open>z.writeOps\<close>: a channel that already holds its entry
  (directories and symbolic links), or one that a goroutine will fill: by
  \<^verbatim>\<open>compressWholeFile\<close>, or by \<^verbatim>\<open>crcFile\<close> with one \<^verbatim>\<open>compressPartialFile\<close>
  for each job.
\<close>

datatype wop =
    Ready "bytes list zipEntry"
  | Whole "bytes list zipEntry" source
  | Split "bytes list zipEntry" source "blockJob list"

record zipWriter =
  time :: int
  createdFiles :: "string \<rightharpoonup> string"
  createdDirs :: "string \<rightharpoonup> string"
  directories :: bool
  compLevel :: int

text \<open>
  \<^verbatim>\<open>writeFileContents\<close>: the channel sent on \<^verbatim>\<open>z.writeOps\<close>, the number of
  \<^verbatim>\<open>cpuRateLimiter.Request\<close> calls, the argument of the one
  \<^verbatim>\<open>memoryRateLimiter.Request\<close> call, and the error returned.
  \<^verbatim>\<open>int64(header.UncompressedSize64)\<close> keeps the bits and reads them as signed.
\<close>

record wfcResult =
  wfcOp :: wop
  wfcCpuRequests :: nat
  wfcMemRequest :: "64 word"
  wfcErr :: "error option"

definition writeFileContents :: "zipWriter \<Rightarrow> FileHeader \<Rightarrow> source \<Rightarrow> wfcResult" where
  "writeFileContents z header r =
     (let header1 = header\<lparr>ModTime := Some (time z)\<rparr>;
          ze = \<lparr> fh = header1, futureReaders = None, allocatedSize = UncompressedSize64 header1 \<rparr>;
          fileSize0 = sint (UncompressedSize64 header1);
          fileSize = (if fileSize0 = 0 then uint (UncompressedSize header1) else fileSize0)
      in if Method header1 = zipDeflate \<and> fileSize \<ge> minParallelFileSize then
           (case splitLoop r fileSize 0 of (jobs, e) \<Rightarrow>
              \<lparr> wfcOp = Split (ze\<lparr>futureReaders := Some []\<rparr>) r jobs,
                wfcCpuRequests = 1 + length jobs + (if e = None then 0 else 1),
                wfcMemRequest = allocatedSize ze, wfcErr = e \<rparr>)
         else
           \<lparr> wfcOp = Whole ze r, wfcCpuRequests = 1, wfcMemRequest = allocatedSize ze,
             wfcErr = None \<rparr>)"

text \<open>Which of the two paths \<^verbatim>\<open>writeFileContents\<close> took.\<close>

fun isSplit :: "wop \<Rightarrow> bool" where
  "isSplit (Split _ _ _) = True"
| "isSplit _ = False"

subsection \<open>The file system\<close>

datatype fileKind = Regular | Directory | Symlink | Irregular

text \<open>
  What \<^verbatim>\<open>os.Lstat\<close>, \<^verbatim>\<open>os.Open\<close>, \<^verbatim>\<open>ioutil.ReadFile\<close> and \<^verbatim>\<open>os.Readlink\<close>
  find at a path.
\<close>

record node =
  nKind :: fileKind
  nSize :: "64 word"
  nPerm :: "32 word"
  nData :: bytes
  nTarget :: string
  nOpenErr :: "error option"
  nReadErr :: "error option"
  nSeekErr :: "error option"
  nReadlinkErr :: "error option"

type_synonym filesystem = "string \<Rightarrow> node option"

definition osOpen :: "filesystem \<Rightarrow> string \<Rightarrow> error + source" where
  "osOpen fs path = (case fs path of
       None \<Rightarrow> Inl (OsError ''no such file or directory'')
     | Some n \<Rightarrow> (case nOpenErr n of
         Some e \<Rightarrow> Inl e
       | None \<Rightarrow> Inr \<lparr> content = nData n, pos = 0, readErr = nReadErr n, seekErr = nSeekErr n \<rparr>))"

definition ioutilReadFile :: "filesystem \<Rightarrow> string \<Rightarrow> error + bytes" where
  "ioutilReadFile fs path = (case osOpen fs path of
       Inl e \<Rightarrow> Inl e
     | Inr r \<Rightarrow> fst (readAll r))"

subsection \<open>The manifest\<close>

text \<open>\<^verbatim>\<open>[]byte(s)\<close> for a string literal.\<close>

definition bytesOf :: "string \<Rightarrow> bytes" where
  "bytesOf s = map (\<lambda>c. of_nat (of_char c)) s"

text \<open>\<^verbatim>\<open>bytes.Contains(b, subslice)\<close>.\<close>

fun Contains :: "bytes \<Rightarrow> bytes \<Rightarrow> bool" where
  "Contains [] subslice = (subslice = [])"
| "Contains (x # xs) subslice =
     (take (length subslice) (x # xs) = subslice \<or> Contains xs subslice)"

definition existsError :: "string \<Rightarrow> string \<Rightarrow> string \<Rightarrow> error" where
  "existsError dest prev src =
     Errorf (''destination '' @ dest @ '' is both a directory '' @ prev @ '' and a file '' @ src)"

definition twoFilesError :: "string \<Rightarrow> string \<Rightarrow> string \<Rightarrow> error" where
  "twoFilesError dest prev src =
     Errorf (''destination '' @ dest @ '' has two files '' @ prev @ '' and '' @ src)"

definition manifestMarker :: bytes where
  "manifestMarker = bytesOf ''Manifest-Version:''"

definition manifestHeader :: bytes where
  "manifestHeader = manifestMarker @ bytesOf ('' 1.0'' @ [CHR 0x0A] @ ''Created-By: soong_zip'' @ [CHR 0x0A])"

definition addManifest :: "zipWriter \<Rightarrow> filesystem \<Rightarrow> string \<Rightarrow> string \<Rightarrow> 16 word
    \<Rightarrow> error + wfcResult" where
  "addManifest z fs dest src method =
     (case ioutilReadFile fs src of
        Inl e \<Rightarrow> Inl e
      | Inr givenBytes \<Rightarrow>
          (case createdDirs z dest of
             Some prev \<Rightarrow> Inl (existsError dest prev src)
           | None \<Rightarrow>
               (case createdFiles z dest of
                  Some prev \<Rightarrow> Inl (twoFilesError dest prev src)
                | None \<Rightarrow>
                    (let finalBytes =
                           (if \<not> Contains givenBytes manifestMarker
                            then (manifestHeader @ givenBytes) @ [of_nat (of_char (CHR 0x0A))]
                            else givenBytes);
                         reader = \<lparr> content = finalBytes, pos = 0, readErr = None, seekErr = None \<rparr>;
                         fileHeader = emptyHeader\<lparr> Name := dest, Method := zipStore,
                            UncompressedSize64 := of_nat (length finalBytes) \<rparr>
                     in Inr (writeFileContents z fileHeader reader)))))"

text \<open>
  What the goroutine started for a channel publishes: the entry with the buffers of its
  \<^verbatim>\<open>futureReaders\<close> in order, or the first error posted. The pool is the one the
  goroutines share; each call of \<^verbatim>\<open>compressBlock\<close> here finds it empty.
\<close>

fun compressJobs :: "lib \<Rightarrow> int \<Rightarrow> blockJob list \<Rightarrow> error + bytes list" where
  "compressJobs l lvl [] = Inr []"
| "compressJobs l lvl (j # js) =
     (case cbOut (compressPartialFile l lvl [] None j) of
        Inl e \<Rightarrow> Inl e
      | Inr b \<Rightarrow> (case compressJobs l lvl js of Inl e \<Rightarrow> Inl e | Inr bs \<Rightarrow> Inr (b # bs)))"

fun resolve :: "lib \<Rightarrow> int \<Rightarrow> wop \<Rightarrow> error + bytes list zipEntry" where
  "resolve l lvl (Ready ze) = Inr ze"
| "resolve l lvl (Whole ze r) = fst (compressWholeFile l lvl [] None ze r)"
| "resolve l lvl (Split ze r jobs) =
     (case crcFile l r ze of
        Inl e \<Rightarrow> Inl e
      | Inr ze' \<Rightarrow> (case compressJobs l lvl jobs of
          Inl e \<Rightarrow> Inl e
        | Inr bs \<Rightarrow> Inr (ze'\<lparr>futureReaders := Some bs\<rparr>)))"


section \<open>Inputs for evaluation\<close>

text \<open>
  A stand-in for the libraries, to run the definitions on concrete inputs: a checksum
  that is the length, and a \<open>flate\<close> that copies what is written, then two bytes for a
  close and four for a sync flush.
\<close>

definition copyLib :: lib where
  "copyLib = \<lparr> crc32 = (\<lambda>b. of_nat (length b)),
     flate = (\<lambda>level dict ops. concat (map (\<lambda>op. case op of
         FWrite b \<Rightarrow> b | FFlush \<Rightarrow> [0, 0, 255, 255] | FClose \<Rightarrow> [3, 0]) ops)) \<rparr>"

definition newZipWriter :: "bool \<Rightarrow> int \<Rightarrow> zipWriter" where
  "newZipWriter dirs level = \<lparr> time = 1230768000, createdFiles = Map.empty,
     createdDirs = Map.empty, directories = dirs, compLevel = level \<rparr>"

definition regularFile :: "bytes \<Rightarrow> node" where
  "regularFile b = \<lparr> nKind = Regular, nSize = of_nat (length b), nPerm = 0x1A4, nData = b,
     nTarget = [], nOpenErr = None, nReadErr = None, nSeekErr = None, nReadlinkErr = None \<rparr>"

section \<open>Properties\<close>

lemma zipStore_neq_zipDeflate: "zipStore \<noteq> zipDeflate"
  by (simp add: zipStore_def zipDeflate_def)

subsection \<open>The manifest\<close>

lemma Contains_iff: "Contains b s \<longleftrightarrow> (\<exists>u v. b = u @ s @ v)"
proof (induction b)
  case Nil
  then show ?case by auto
next
  case (Cons x xs)
  show ?case
  proof
    assume "Contains (x # xs) s"
    then consider "take (length s) (x # xs) = s" | "Contains xs s" by auto
    then show "\<exists>u v. x # xs = u @ s @ v"
    proof cases
      case 1
      then have "x # xs = [] @ s @ drop (length s) (x # xs)"
        by (metis append_Nil append_take_drop_id)
      then show ?thesis by blast
    next
      case 2
      then obtain u v where "xs = u @ s @ v" using Cons.IH by blast
      then have "x # xs = (x # u) @ s @ v" by simp
      then show ?thesis by blast
    qed
  next
    assume "\<exists>u v. x # xs = u @ s @ v"
    then obtain u v where uv: "x # xs = u @ s @ v" by blast
    show "Contains (x # xs) s"
    proof (cases u)
      case Nil
      then have "take (length s) (x # xs) = s" using uv by (metis append_Nil append_eq_conv_conj)
      then show ?thesis by simp
    next
      case (Cons y ys)
      then have "xs = ys @ s @ v" using uv by simp
      then have "Contains xs s" using Cons.IH by blast
      then show ?thesis by simp
    qed
  qed
qed

text \<open>
  C9. When \<^verbatim>\<open>addManifest\<close> succeeds, the entry that reaches the writer has method
  STORE and one buffer: the bytes of the manifest file as they are when they contain
  \<^verbatim>\<open>Manifest-Version:\<close>, and otherwise the two header lines, the bytes of the file
  and one newline.
\<close>

theorem addManifest_payload:
  assumes "addManifest z fs dest src method = Inr res"
  shows "\<exists>givenBytes ze'. ioutilReadFile fs src = Inr givenBytes
     \<and> resolve l lvl (wfcOp res) = Inr ze'
     \<and> Method (fh ze') = zipStore
     \<and> futureReaders ze' = Some [
          if \<not> Contains givenBytes (bytesOf ''Manifest-Version:'')
          then bytesOf (''Manifest-Version: 1.0'' @ [CHR 0x0A] @ ''Created-By: soong_zip'' @ [CHR 0x0A])
               @ givenBytes @ bytesOf [CHR 0x0A]
          else givenBytes]"
  using assms
  by (auto simp: addManifest_def writeFileContents_def Let_def zipStore_neq_zipDeflate
      compressWholeFile_def readAll_def seek0_def readFile_def storeEntry_def
      manifestHeader_def manifestMarker_def bytesOf_def
      split: sum.splits option.splits)

theorem addManifest_payload_witness:
  "\<exists>res ze'. addManifest (newZipWriter True 5)
        (\<lambda>p. if p = ''mf.txt'' then Some (regularFile (bytesOf ''Main-Class: A'')) else None)
        manifestDest ''mf.txt'' zipDeflate = Inr res
     \<and> resolve copyLib 5 (wfcOp res) = Inr ze'
     \<and> Method (fh ze') = zipStore
     \<and> futureReaders ze' = Some [bytesOf (''Manifest-Version: 1.0'' @ [CHR 0x0A]
          @ ''Created-By: soong_zip'' @ [CHR 0x0A] @ ''Main-Class: A'' @ [CHR 0x0A])]"
proof -
  let ?fs = "\<lambda>p. if p = ''mf.txt'' then Some (regularFile (bytesOf ''Main-Class: A'')) else None"
  obtain res where res: "addManifest (newZipWriter True 5) ?fs manifestDest ''mf.txt'' zipDeflate = Inr res"
    by (simp add: addManifest_def ioutilReadFile_def osOpen_def regularFile_def readAll_def
      newZipWriter_def Let_def)
  have rd: "ioutilReadFile ?fs ''mf.txt'' = Inr (bytesOf ''Main-Class: A'')"
    by (simp add: ioutilReadFile_def osOpen_def regularFile_def readAll_def)
  have nc: "\<not> Contains (bytesOf ''Main-Class: A'') (bytesOf ''Manifest-Version:'')"
    by (simp add: bytesOf_def)
  from addManifest_payload[OF res, of copyLib 5] rd nc
  show ?thesis using res by (auto simp: bytesOf_def)
qed

end
